theory Spec2Isabelle
  imports Complex_Main
begin

section \<open>Errors\<close>

text \<open>
  The Python sources raise built-in exceptions only: every failed \<^verbatim>\<open>assert\<close> is an
  AssertionError carrying the message written in the source, a missing dictionary key is
  a KeyError, and so on.  The argument is the message (or the offending key).
\<close>

datatype error =
    AssertionError string
  | TypeError string
  | ValueError string
  | KeyError string
  | IndexError string

text \<open>
  A floating-point result that need not be a number: the divergences of the external
  statistics library may be infinite or nan.  Everywhere else floats are real numbers.
\<close>

datatype fval = Finite real | PosInf | NegInf | NaN

section \<open>Populations (CytoPy/data/populations.py)\<close>

subsection \<open>Data model\<close>

text \<open>
  Modelled from the spec: the module \<^verbatim>\<open>CytoPy.data.geometry\<close> (classes ThresholdGeom and
  PolygonGeom) is imported by populations.py but is not among the sources.  The spec
  describes the geometry as a tagged variant, \<^verbatim>\<open>Threshold{x_axis, y_axis, x_transform,
  y_transform, x_threshold, y_threshold}\<close> or \<^verbatim>\<open>Polygon{x_axis, y_axis, x_transform,
  y_transform, boundary}\<close>; the selectors below carry the attribute names populations.py
  reads (\<^verbatim>\<open>geom.x\<close>, \<^verbatim>\<open>geom.y\<close>, \<^verbatim>\<open>geom.transform_x\<close>, \<^verbatim>\<open>geom.transform_y\<close>,
  \<^verbatim>\<open>geom.x_threshold\<close>, \<^verbatim>\<open>geom.y_threshold\<close>, \<^verbatim>\<open>x_values\<close>, \<^verbatim>\<open>y_values\<close>).
\<close>

datatype geometry =
    is_ThresholdGeom: ThresholdGeom (geom_x: string) (geom_y: string)
                  (transform_x: string) (transform_y: string)
                  (x_threshold: real) (y_threshold: real)
  | is_PolygonGeom: PolygonGeom (geom_x: string) (geom_y: string)
                (transform_x: string) (transform_y: string)
                (x_values: "real list") (y_values: "real list")

text \<open>
  The discriminators \<open>is_ThresholdGeom\<close> and \<open>is_PolygonGeom\<close> are
  \<^verbatim>\<open>isinstance(g, ThresholdGeom)\<close> and \<^verbatim>\<open>isinstance(g, PolygonGeom)\<close>.
\<close>

text \<open>\<^verbatim>\<open>isinstance(left.geom, type(right.geom))\<close> for the two classes of the variant.\<close>

definition same_geom_type :: "geometry \<Rightarrow> geometry \<Rightarrow> bool" where
  "same_geom_type l r = (is_ThresholdGeom l = is_ThresholdGeom r)"

text \<open>
  Class Cluster.  The field \<^verbatim>\<open>n\<close> is called \<open>cluster_n\<close> and the property \<^verbatim>\<open>index\<close>
  \<open>cluster_index\<close> here, to keep them apart from the fields of Population.
\<close>

record cluster =
  cluster_id :: string
  meta_label :: "string option"
  cluster_n :: int
  prop_of_events :: real
  tag :: string
  cluster_index :: "int list option"

text \<open>
  Class Population.  \<^verbatim>\<open>n\<close> is \<open>pop_n\<close> and \<^verbatim>\<open>definition\<close> is \<open>pop_definition\<close>
  (the latter is a keyword of Isabelle).  Fields that the constructor leaves unset are
  \<^verbatim>\<open>None\<close> in Python: \<^verbatim>\<open>index\<close> (popped from the keyword arguments with default
  \<^verbatim>\<open>None\<close>), \<^verbatim>\<open>definition\<close>, \<^verbatim>\<open>prop_of_parent\<close> and \<^verbatim>\<open>prop_of_total\<close>.  The
  integer array \<^verbatim>\<open>index\<close> is a list of row identifiers, the dictionaries \<^verbatim>\<open>signature\<close>
  and \<^verbatim>\<open>ctrl_index\<close> are association lists in insertion order.
\<close>

record population =
  population_name :: string
  pop_n :: int
  parent :: string
  prop_of_parent :: "real option"
  prop_of_total :: "real option"
  warnings :: "string list"
  geom :: geometry
  clusters :: "cluster list"
  pop_definition :: "string option"
  signature :: "(string \<times> real) list"
  index :: "int list option"
  ctrl_index :: "(string \<times> int list) list"

text \<open>
  The two operations of the external geometry library (shapely) that the polygon merge
  uses are parameters: \<^verbatim>\<open>left.geom.shape.intersects(right.geom.shape)\<close> and the
  coordinate sequences \<^verbatim>\<open>unary_union([...]).exterior.coords.xy\<close>.
\<close>

record shapely =
  intersects :: "geometry \<Rightarrow> geometry \<Rightarrow> bool"
  union_exterior :: "geometry \<Rightarrow> geometry \<Rightarrow> real list \<times> real list"

text \<open>
  What a merge does besides returning: it may assign to attributes of its arguments, and
  it may emit warnings through \<^verbatim>\<open>warn\<close>.  In the functions on population values below
  the two arguments are two different objects: \<open>left_after\<close> and \<open>right_after\<close> are
  these two objects as the caller sees them afterwards, \<open>warned\<close> the messages emitted,
  in order.  A call in which one object may stand in both positions is a call on
  references into a store, see \<open>merge_thresholds_ref\<close> and \<open>merge_populations_ref\<close>.
\<close>

record merge_effects =
  left_after :: population
  right_after :: population
  warned :: "string list"

subsection \<open>Checks\<close>

definition overlap_msg :: string where
  "overlap_msg = ''Invalid: non-overlapping populations''"

definition polygon_only_msg :: string where
  "polygon_only_msg = ''Only Polygon geometries can be checked for overlap''"

definition check_overlap :: "shapely \<Rightarrow> population \<Rightarrow> population \<Rightarrow> bool \<Rightarrow> error + bool" where
  "check_overlap lib left right err =
     (if \<not> (is_PolygonGeom (geom left) \<and> is_PolygonGeom (geom right))
      then Inl (AssertionError polygon_only_msg)
      else let overlap = intersects lib (geom left) (geom right)
           in if err \<and> \<not> overlap then Inl (AssertionError overlap_msg)
              else Inr overlap)"

definition transform_x_msg :: string where
  "transform_x_msg = ''X dimension transform differs between left and right populations''"

definition transform_y_msg :: string where
  "transform_y_msg = ''Y dimension transform differs between left and right populations''"

definition x_msg :: string where
  "x_msg = ''X dimension differs between left and right populations''"

definition y_msg :: string where
  "y_msg = ''Y dimension differs between left and right populations''"

definition check_transforms_dimensions :: "population \<Rightarrow> population \<Rightarrow> error + unit" where
  "check_transforms_dimensions left right =
     (if transform_x (geom left) \<noteq> transform_x (geom right) then Inl (AssertionError transform_x_msg)
      else if transform_y (geom left) \<noteq> transform_y (geom right) then Inl (AssertionError transform_y_msg)
      else if geom_x (geom left) \<noteq> geom_x (geom right) then Inl (AssertionError x_msg)
      else if geom_y (geom left) \<noteq> geom_y (geom right) then Inl (AssertionError y_msg)
      else Inr ())"

subsection \<open>Merging two populations\<close>

text \<open>
  \<^verbatim>\<open>np.unique(np.concatenate([left.index, right.index], axis=0), axis=0)\<close>: the sorted
  array of the distinct values.  Called only after \<^verbatim>\<open>len\<close> of both indexes has been
  taken, so both are arrays there.
\<close>

definition merge_index :: "int list \<Rightarrow> int list \<Rightarrow> int list" where
  "merge_index l r = sort (remdups (l @ r))"

text \<open>
  \<^verbatim>\<open>pd.DataFrame([left.signature, right.signature]).mean().to_dict()\<close>: one column per
  key of either dictionary, in order of first appearance; the column mean skips the row
  in which the key is missing.
\<close>

definition merge_signatures :: "(string \<times> real) list \<Rightarrow> (string \<times> real) list \<Rightarrow> (string \<times> real) list" where
  "merge_signatures l r =
     map (\<lambda>k. (k, case (map_of l k, map_of r k) of
                     (Some a, Some b) \<Rightarrow> (a + b) / 2
                   | (Some a, None) \<Rightarrow> a
                   | (None, Some b) \<Rightarrow> b
                   | (None, None) \<Rightarrow> 0))
         (remdups (map fst l @ map fst r))"

definition x_threshold_msg :: string where
  "x_threshold_msg = ''Threshold merge assumes that the populations are derived from the same gate; X threshold should match between populations''"

definition y_threshold_msg :: string where
  "y_threshold_msg = ''Threshold merge assumes that the populations are derived from the same gate; Y threshold should match between populations''"

definition clusters_void_msg :: string where
  "clusters_void_msg = ''Associated clusters are now void. Repeat clustering on new population''"

definition ctrl_void_msg :: string where
  "ctrl_void_msg = ''Associated control indexes are now void. Repeat control gating on new population''"

definition no_len_msg :: string where
  "no_len_msg = ''object of type NoneType has no len()''"

definition join_msg :: string where
  "join_msg = ''sequence item: expected str instance, NoneType found''"

text \<open>
  The keyword arguments of \<^verbatim>\<open>Population(...)\<close> that both merges share, evaluated in the
  order written: \<^verbatim>\<open>n=len(left.index) + len(right.index)\<close> (a TypeError when an index is
  \<^verbatim>\<open>None\<close>), \<^verbatim>\<open>parent\<close>, \<^verbatim>\<open>warnings\<close>, \<^verbatim>\<open>index=_merge_index(left, right)\<close>,
  \<^verbatim>\<open>geom\<close>.  The constructor pops \<^verbatim>\<open>index\<close> into \<^verbatim>\<open>_index\<close> directly: the property
  setter, which would set \<^verbatim>\<open>n = len(idx)\<close>, does not run.  Fields not passed keep their
  defaults.
\<close>

definition new_population ::
  "string \<Rightarrow> population \<Rightarrow> population \<Rightarrow> geometry \<Rightarrow> string option \<Rightarrow> error + population" where
  "new_population new_population_name left right new_geom defn =
     (case (index left, index right) of
        (Some li, Some ri) \<Rightarrow>
          Inr \<lparr> population_name = new_population_name,
                pop_n = int (length li) + int (length ri),
                parent = parent left,
                prop_of_parent = None,
                prop_of_total = None,
                warnings = warnings left @ warnings right @ [''MERGED POPULATION''],
                geom = new_geom,
                clusters = [],
                pop_definition = defn,
                signature = merge_signatures (signature left) (signature right),
                index = Some (merge_index li ri),
                ctrl_index = [] \<rparr>
      | _ \<Rightarrow> Inl (TypeError no_len_msg))"

text \<open>
  \<^verbatim>\<open>_merge_thresholds\<close>.  The tuple assignment
  \<^verbatim>\<open>left.clusters, right_clusters = [], []\<close> writes the attribute \<^verbatim>\<open>clusters\<close> of the left
  argument and a fresh local variable \<^verbatim>\<open>right_clusters\<close>; the right argument is not
  written.  \<^verbatim>\<open>",".join([left.definition, right.definition])\<close> is evaluated after \<^verbatim>\<open>n\<close>,
  \<^verbatim>\<open>warnings\<close> and \<^verbatim>\<open>index\<close>, and raises a TypeError when a definition is \<^verbatim>\<open>None\<close>.
\<close>

definition merge_thresholds ::
  "population \<Rightarrow> population \<Rightarrow> string \<Rightarrow> (error + population) \<times> merge_effects" where
  "merge_thresholds left right new_population_name =
     (if x_threshold (geom left) \<noteq> x_threshold (geom right)
      then (Inl (AssertionError x_threshold_msg),
            \<lparr>left_after = left, right_after = right, warned = []\<rparr>)
      else if y_threshold (geom left) \<noteq> y_threshold (geom right)
      then (Inl (AssertionError y_threshold_msg),
            \<lparr>left_after = left, right_after = right, warned = []\<rparr>)
      else
        let void = (clusters left \<noteq> [] \<or> clusters right \<noteq> []);
            left' = (if void then left\<lparr>clusters := []\<rparr> else left);
            w1 = (if void then [clusters_void_msg] else []);
            w2 = (if length (ctrl_index left) > 0 \<or> length (ctrl_index right) > 0
                  then [ctrl_void_msg] else []);
            eff = \<lparr>left_after = left', right_after = right, warned = w1 @ w2\<rparr>;
            new_geom = ThresholdGeom (geom_x (geom left')) (geom_y (geom left'))
                         (transform_x (geom left')) (transform_y (geom left'))
                         (x_threshold (geom left')) (y_threshold (geom left'))
        in case (index left', index right) of
             (Some li, Some ri) \<Rightarrow>
               (case (pop_definition left', pop_definition right) of
                  (Some dl, Some dr) \<Rightarrow>
                    (new_population new_population_name left' right new_geom
                       (Some (dl @ '','' @ dr)), eff)
                | _ \<Rightarrow> (Inl (TypeError join_msg), eff))
           | _ \<Rightarrow> (Inl (TypeError no_len_msg), eff))"

text \<open>\<^verbatim>\<open>_merge_polygons\<close>: no attribute of an argument is written, no warning emitted.\<close>

definition merge_polygons ::
  "shapely \<Rightarrow> population \<Rightarrow> population \<Rightarrow> string \<Rightarrow> (error + population) \<times> merge_effects" where
  "merge_polygons lib left right new_population_name =
     (let eff = \<lparr>left_after = left, right_after = right, warned = []\<rparr>
      in case check_overlap lib left right True of
           Inl e \<Rightarrow> (Inl e, eff)
         | Inr _ \<Rightarrow>
             (let (xs, ys) = union_exterior lib (geom left) (geom right);
                  new_geom = PolygonGeom (geom_x (geom left)) (geom_y (geom left))
                               (transform_x (geom left)) (transform_y (geom left)) xs ys
              in (new_population new_population_name left right new_geom None, eff)))"

definition parent_msg :: string where
  "parent_msg = ''Parent populations do not match''"

definition geom_type_msg :: string where
  "geom_type_msg = ''Geometries must be of the same type''"

text \<open>
  \<^verbatim>\<open>new_population_name or f"merge_{left.population_name}_{right.population_name}"\<close>:
  \<^verbatim>\<open>None\<close> and the empty string are both false.
\<close>

definition default_name :: "string option \<Rightarrow> population \<Rightarrow> population \<Rightarrow> string" where
  "default_name new_population_name left right =
     (case new_population_name of
        None \<Rightarrow> ''merge_'' @ population_name left @ ''_'' @ population_name right
      | Some s \<Rightarrow> if s = [] then ''merge_'' @ population_name left @ ''_'' @ population_name right
                  else s)"

definition merge_populations ::
  "shapely \<Rightarrow> population \<Rightarrow> population \<Rightarrow> string option \<Rightarrow> (error + population) \<times> merge_effects" where
  "merge_populations lib left right new_population_name =
     (let eff = \<lparr>left_after = left, right_after = right, warned = []\<rparr>
      in case check_transforms_dimensions left right of
           Inl e \<Rightarrow> (Inl e, eff)
         | Inr _ \<Rightarrow>
             (let nm = default_name new_population_name left right
              in if parent left \<noteq> parent right then (Inl (AssertionError parent_msg), eff)
                 else if \<not> same_geom_type (geom left) (geom right)
                 then (Inl (AssertionError geom_type_msg), eff)
                 else if is_ThresholdGeom (geom left) then merge_thresholds left right nm
                 else merge_polygons lib left right nm))"


subsection \<open>Merging two populations given by reference\<close>

text \<open>
  Python passes objects by reference, and the same object may be passed as both
  arguments.  A store holds the population objects by reference; a call reads its
  arguments from the store and writes to it.  The merged population is a new object
  and is returned as a value.
\<close>

type_synonym store = "nat \<Rightarrow> population"

text \<open>
  \<^verbatim>\<open>_merge_thresholds\<close> on references.  The assignment \<^verbatim>\<open>left.clusters, right_clusters = [], []\<close>
  writes the object behind \<open>l\<close> only; everything after it reads the store as written,
  so with \<open>l = r\<close> the right argument is read with its clusters emptied.
\<close>

definition merge_thresholds_ref ::
  "store \<Rightarrow> nat \<Rightarrow> nat \<Rightarrow> string \<Rightarrow> (error + population) \<times> store \<times> string list" where
  "merge_thresholds_ref s l r new_population_name =
     (if x_threshold (geom (s l)) \<noteq> x_threshold (geom (s r))
      then (Inl (AssertionError x_threshold_msg), s, [])
      else if y_threshold (geom (s l)) \<noteq> y_threshold (geom (s r))
      then (Inl (AssertionError y_threshold_msg), s, [])
      else
        let void = (clusters (s l) \<noteq> [] \<or> clusters (s r) \<noteq> []);
            s' = (if void then s(l := (s l)\<lparr>clusters := []\<rparr>) else s);
            w1 = (if void then [clusters_void_msg] else []);
            w2 = (if length (ctrl_index (s' l)) > 0 \<or> length (ctrl_index (s' r)) > 0
                  then [ctrl_void_msg] else []);
            new_geom = ThresholdGeom (geom_x (geom (s' l))) (geom_y (geom (s' l)))
                         (transform_x (geom (s' l))) (transform_y (geom (s' l)))
                         (x_threshold (geom (s' l))) (y_threshold (geom (s' l)))
        in case (index (s' l), index (s' r)) of
             (Some li, Some ri) \<Rightarrow>
               (case (pop_definition (s' l), pop_definition (s' r)) of
                  (Some dl, Some dr) \<Rightarrow>
                    (new_population new_population_name (s' l) (s' r) new_geom
                       (Some (dl @ '','' @ dr)), s', w1 @ w2)
                | _ \<Rightarrow> (Inl (TypeError join_msg), s', w1 @ w2))
           | _ \<Rightarrow> (Inl (TypeError no_len_msg), s', w1 @ w2))"

text \<open>
  \<^verbatim>\<open>merge_populations\<close> on references.  The checks and the polygon merge write
  nothing, so they are those on the values read.
\<close>

definition merge_populations_ref ::
  "shapely \<Rightarrow> store \<Rightarrow> nat \<Rightarrow> nat \<Rightarrow> string option
     \<Rightarrow> (error + population) \<times> store \<times> string list" where
  "merge_populations_ref lib s l r new_population_name =
     (case check_transforms_dimensions (s l) (s r) of
        Inl e \<Rightarrow> (Inl e, s, [])
      | Inr _ \<Rightarrow>
          (let nm = default_name new_population_name (s l) (s r)
           in if parent (s l) \<noteq> parent (s r) then (Inl (AssertionError parent_msg), s, [])
              else if \<not> same_geom_type (geom (s l)) (geom (s r))
              then (Inl (AssertionError geom_type_msg), s, [])
              else if is_ThresholdGeom (geom (s l)) then merge_thresholds_ref s l r nm
              else (fst (merge_polygons lib (s l) (s r) nm), s, [])))"

subsection \<open>Merging many populations\<close>

definition same_name_msg :: string where
  "same_name_msg = ''If a new population name is not given the populations are expected to have the same population name''"

definition reduce_empty_msg :: string where
  "reduce_empty_msg = ''reduce() of empty iterable with no initial value''"

text \<open>
  \<^verbatim>\<open>reduce(lambda p1, p2: merge_populations(p1, p2), populations)\<close> from the first
  population on: the accumulator is the left argument of every merge, the intermediate
  name is the default one.  The second component is the first population as the caller
  sees it afterwards: only the first merge has it as its left argument, the later ones
  write to intermediate records.
\<close>

fun reduce_merge ::
  "shapely \<Rightarrow> population \<Rightarrow> population list \<Rightarrow> (error + population) \<times> population \<times> string list" where
  "reduce_merge lib acc [] = (Inr acc, acc, [])"
| "reduce_merge lib acc (p2 # rest) =
     (case merge_populations lib acc p2 None of
        (Inl e, eff) \<Rightarrow> (Inl e, left_after eff, warned eff)
      | (Inr m, eff) \<Rightarrow>
          (case reduce_merge lib m rest of
             (r, _, ws) \<Rightarrow> (r, left_after eff, warned eff @ ws)))"

text \<open>
  \<^verbatim>\<open>merge_multiple_populations\<close>.  The result is the outcome, the list of populations
  as the caller sees it afterwards, and the warnings emitted.  With a single population
  \<^verbatim>\<open>reduce\<close> returns that very object, so the final assignment of the name writes to
  the input.
\<close>

definition merge_multiple_populations ::
  "shapely \<Rightarrow> population list \<Rightarrow> string option
     \<Rightarrow> (error + population) \<times> population list \<times> string list" where
  "merge_multiple_populations lib populations new_population_name =
     (if new_population_name = None \<and> card (set (map population_name populations)) \<noteq> 1
      then (Inl (AssertionError same_name_msg), populations, [])
      else
        case populations of
          [] \<Rightarrow> (if new_population_name = None \<or> new_population_name = Some []
                 then (Inl (IndexError ''list index out of range''), populations, [])
                 else (Inl (TypeError reduce_empty_msg), populations, []))
        | p # rest \<Rightarrow>
            (let nm = (case new_population_name of
                         None \<Rightarrow> population_name p
                       | Some s \<Rightarrow> if s = [] then population_name p else s)
             in case reduce_merge lib p rest of
                  (Inl e, p', ws) \<Rightarrow> (Inl e, p' # rest, ws)
                | (Inr merged_pop, p', ws) \<Rightarrow>
                    (Inr (merged_pop\<lparr>population_name := nm\<rparr>),
                     (if rest = [] then p'\<lparr>population_name := nm\<rparr> else p') # rest,
                     ws)))"

text \<open>
  The many-way merge in the words of the specification: a left fold of the pairwise
  merge over the list, in list order, that stops at the first failure.
\<close>

definition left_fold_merge :: "shapely \<Rightarrow> population \<Rightarrow> population list \<Rightarrow> error + population" where
  "left_fold_merge lib p rest =
     foldl (\<lambda>acc p2. case acc of Inl e \<Rightarrow> Inl e
                              | Inr a \<Rightarrow> fst (merge_populations lib a p2 None))
           (Inr p) rest"

text \<open>
  The error kinds of the specification, as this module raises them: each is the
  AssertionError of the corresponding \<^verbatim>\<open>assert\<close> statement.
\<close>

definition IncompatibleGeometryError :: "error \<Rightarrow> bool" where
  "IncompatibleGeometryError e =
     (e = AssertionError x_threshold_msg \<or> e = AssertionError y_threshold_msg)"

definition NonOverlappingGeometryError :: "error \<Rightarrow> bool" where
  "NonOverlappingGeometryError e = (e = AssertionError overlap_msg)"

definition AmbiguousNameError :: "error \<Rightarrow> bool" where
  "AmbiguousNameError e = (e = AssertionError same_name_msg)"

section \<open>Density estimation (cytopy/flow/utilities.py)\<close>

text \<open>
  A sample table is the two-dimensional array \<^verbatim>\<open>x\<close>: the list of its rows, every row
  with one entry per column.  Floating-point numbers are real numbers here.
\<close>

type_synonym table = "real list list"

text \<open>\<^verbatim>\<open>x.shape[1]\<close> of a table with at least one row.\<close>

definition ncols :: "table \<Rightarrow> nat" where
  "ncols x = (case x of [] \<Rightarrow> 0 | r # _ \<Rightarrow> length r)"

text \<open>
  \<^verbatim>\<open>np.linspace(start, stop, num)\<close>: \<open>num\<close> evenly spaced values, both ends included; a
  negative \<open>num\<close> is a ValueError.
\<close>

definition linspace :: "real \<Rightarrow> real \<Rightarrow> int \<Rightarrow> error + real list" where
  "linspace start stop num =
     (if num < 0 then Inl (ValueError ''Number of samples must be non-negative'')
      else if num = 1 then Inr [start]
      else Inr (map (\<lambda>i. start + real i * ((stop - start) / real (nat num - 1))) [0..<nat num]))"

text \<open>
  \<^verbatim>\<open>np.amin(x)\<close> and \<^verbatim>\<open>np.amax(x)\<close> without an axis: the least and the greatest entry of
  the whole array; a ValueError on an array without entries.
\<close>

definition amin :: "table \<Rightarrow> error + real" where
  "amin x = (case concat x of
               [] \<Rightarrow> Inl (ValueError ''zero-size array to reduction operation minimum which has no identity'')
             | v # vs \<Rightarrow> Inr (fold min vs v))"

definition amax :: "table \<Rightarrow> error + real" where
  "amax x = (case concat x of
               [] \<Rightarrow> Inl (ValueError ''zero-size array to reduction operation maximum which has no identity'')
             | v # vs \<Rightarrow> Inr (fold max vs v))"

text \<open>
  \<^verbatim>\<open>np.quantile(x, q)\<close> without an axis: the quantile of the flattened, sorted entries
  by linear interpolation between the two nearest ranks.  On an array without entries
  numpy yields no number (nan, or an exception, by version) and the search that follows
  cannot run; the model fails there.
\<close>

definition quantile :: "table \<Rightarrow> real \<Rightarrow> error + real" where
  "quantile x q =
     (let s = sort (concat x); n = length s
      in if n = 0 then Inl (ValueError ''quantile of an empty array'')
         else let h = q * real (n - 1);
                  lo = nat \<lfloor>h\<rfloor>;
                  hi = min (lo + 1) (n - 1)
              in Inr (s ! lo + (h - real lo) * (s ! hi - s ! lo)))"

text \<open>
  The estimator library (scikit-learn) is a parameter: \<open>grid_search cands x\<close> is
  \<^verbatim>\<open>GridSearchCV(KernelDensity(), {'bandwidth': cands}, cv=20).fit(x).best_estimator_.bandwidth\<close>,
  \<open>kde_fit bw kwargs x\<close> is \<^verbatim>\<open>KernelDensity(bandwidth=bw, **kwargs).fit(x)\<close>, and
  \<open>log_density kde row\<close> is the log-density of the fitted estimator at one point.
\<close>

record 'm sklearn =
  grid_search :: "real list \<Rightarrow> table \<Rightarrow> error + real"
  kde_fit :: "real \<Rightarrow> (string \<times> string) list \<Rightarrow> table \<Rightarrow> error + 'm"
  log_density :: "'m \<Rightarrow> real list \<Rightarrow> real"

datatype bandwidth = BwStr string | BwNum real

text \<open>
  \<^verbatim>\<open>bandwidth_search == 0\<close> compares a Python list with an integer: the comparison is
  false for every list.
\<close>

definition list_eq_int :: "real list \<Rightarrow> int \<Rightarrow> bool" where
  "list_eq_int xs k = False"

text \<open>
  Lines 93 to 96: the two bounds of the bandwidth search when none are given.
\<close>

definition default_bandwidth_search :: "table \<Rightarrow> error + real list" where
  "default_bandwidth_search x =
     (case quantile x (5 / 100) of
        Inl e \<Rightarrow> Inl e
      | Inr lo \<Rightarrow>
          (case quantile x (95 / 100) of
             Inl e \<Rightarrow> Inl e
           | Inr hi \<Rightarrow>
               (let bandwidth_search = [lo, hi]
                in if list_eq_int bandwidth_search 0
                   then Inr (bandwidth_search[0 := 1 / 100])
                   else Inr bandwidth_search)))"

text \<open>
  The candidate bandwidths handed to the cross-validated search:
  \<^verbatim>\<open>np.linspace(bandwidth_search[0], bandwidth_search[1], 30)\<close>.
\<close>

definition bandwidth_grid :: "table \<Rightarrow> real list option \<Rightarrow> error + real list" where
  "bandwidth_grid x bandwidth_search =
     (case (case bandwidth_search of None \<Rightarrow> default_bandwidth_search x | Some bs \<Rightarrow> Inr bs) of
        Inl e \<Rightarrow> Inl e
      | Inr bs \<Rightarrow>
          if length bs < 2 then Inl (IndexError ''list index out of range'')
          else linspace (bs ! 0) (bs ! 1) 30)"

text \<open>Lines 91 to 101: the bandwidth the estimator is fitted with.\<close>

definition choose_bandwidth ::
  "'m sklearn \<Rightarrow> table \<Rightarrow> bandwidth \<Rightarrow> real list option \<Rightarrow> error + real" where
  "choose_bandwidth lib x bw bandwidth_search =
     (case bw of
        BwNum b \<Rightarrow> Inr b
      | BwStr s \<Rightarrow>
          if s \<noteq> ''cross_val''
          then Inl (AssertionError ''Invalid input for bandwidth, must be either float or cross_val'')
          else (case bandwidth_grid x bandwidth_search of
                  Inl e \<Rightarrow> Inl e
                | Inr cands \<Rightarrow> grid_search lib cands x))"

text \<open>
  Line 105: one row per column of \<^verbatim>\<open>x\<close>, each the same
  \<^verbatim>\<open>np.linspace(np.amin(x), np.amax(x), x_grid_n)\<close>.
\<close>

definition x_grid :: "table \<Rightarrow> int \<Rightarrow> error + real list list" where
  "x_grid x x_grid_n =
     (case amin x of
        Inl e \<Rightarrow> Inl e
      | Inr lo \<Rightarrow>
          (case amax x of
             Inl e \<Rightarrow> Inl e
           | Inr hi \<Rightarrow>
               (case linspace lo hi x_grid_n of
                  Inl e \<Rightarrow> Inl e
                | Inr g \<Rightarrow> Inr (replicate (ncols x) g))))"

text \<open>
  \<^verbatim>\<open>kde.score_samples(rows)\<close>: one log-density per row; an array without rows is
  refused with a ValueError.
\<close>

definition score_samples :: "'m sklearn \<Rightarrow> 'm \<Rightarrow> table \<Rightarrow> error + real list" where
  "score_samples lib kde rows =
     (if rows = [] then Inl (ValueError ''Found array with 0 sample(s)'')
      else Inr (map (log_density lib kde) rows))"

definition kde_multivariant ::
  "'m sklearn \<Rightarrow> table \<Rightarrow> bandwidth \<Rightarrow> real list option \<Rightarrow> int option
     \<Rightarrow> (string \<times> string) list \<Rightarrow> error + real list" where
  "kde_multivariant lib x bw bandwidth_search x_grid_n kwargs =
     (case choose_bandwidth lib x bw bandwidth_search of
        Inl e \<Rightarrow> Inl e
      | Inr b \<Rightarrow>
          (case kde_fit lib b kwargs x of
             Inl e \<Rightarrow> Inl e
           | Inr kde \<Rightarrow>
               (case x_grid_n of
                  Some n \<Rightarrow>
                    (case x_grid x n of
                       Inl e \<Rightarrow> Inl e
                     | Inr g \<Rightarrow>
                         (case score_samples lib kde (transpose g) of
                            Inl e \<Rightarrow> Inl e
                          | Inr log_pdf \<Rightarrow> Inr (map exp log_pdf)))
                | None \<Rightarrow>
                    (case score_samples lib kde x of
                       Inl e \<Rightarrow> Inl e
                     | Inr log_pdf \<Rightarrow> Inr (map exp log_pdf)))))"

text \<open>
  \<^verbatim>\<open>hellinger_dot\<close>: \<^verbatim>\<open>z = np.sqrt(p) - np.sqrt(q)\<close> elementwise, then
  \<^verbatim>\<open>np.sqrt(z @ z / 2)\<close>.  Arrays of different lengths do not combine unless one of
  them has a single entry, which is then used at every position.
\<close>

definition broadcast :: "real list \<Rightarrow> real list \<Rightarrow> error + (real \<times> real) list" where
  "broadcast p q =
     (if length p = length q then Inr (zip p q)
      else if length p = 1 then Inr (map (\<lambda>b. (hd p, b)) q)
      else if length q = 1 then Inr (map (\<lambda>a. (a, hd q)) p)
      else Inl (ValueError ''operands could not be broadcast together''))"

definition hellinger_dot :: "real list \<Rightarrow> real list \<Rightarrow> error + fval" where
  "hellinger_dot p q =
     (case broadcast p q of
        Inl e \<Rightarrow> Inl e
      | Inr pq \<Rightarrow>
          if \<exists>(a, b) \<in> set pq. a < 0 \<or> b < 0 then Inr NaN
          else (let z = map (\<lambda>(a, b). sqrt a - sqrt b) pq
                in Inr (Finite (sqrt (sum_list (map (\<lambda>v. v * v) z) / 2)))))"

section \<open>Batch effects (cytopy/flow/batch_effects.py)\<close>

text \<open>
  The two divergences of the external statistics library (scipy) are parameters:
  \<^verbatim>\<open>scipy.spatial.distance.jensenshannon\<close> and \<^verbatim>\<open>scipy.stats.entropy\<close>.  \<open>None\<close> is
  Python's \<^verbatim>\<open>None\<close>, which the source asserts against.
\<close>

record scipy =
  jsd :: "real list \<Rightarrow> real list \<Rightarrow> fval option"
  kl :: "real list \<Rightarrow> real list \<Rightarrow> fval option"

text \<open>
  \<^verbatim>\<open>jsd_divergence\<close>.  The second component lists the diagnostics the function emits
  (warnings or printed lines): the body has no statement that emits one.  The integer
  \<^verbatim>\<open>1\<close> returned for an infinite value is the number one; \<open>dv\<close> is the variable
  \<^verbatim>\<open>div\<close> of the source.
\<close>

definition jsd_divergence :: "scipy \<Rightarrow> real list \<Rightarrow> real list \<Rightarrow> (error + fval) \<times> string list" where
  "jsd_divergence lib x y =
     (case jsd lib x y of
        None \<Rightarrow> (Inl (AssertionError ''JSD is null''), [])
      | Some dv \<Rightarrow>
          if dv \<in> set [PosInf, NegInf] then (Inr (Finite 1), [])
          else (Inr dv, []))"

definition kl_divergence :: "scipy \<Rightarrow> real list \<Rightarrow> real list \<Rightarrow> error + fval" where
  "kl_divergence lib x y =
     (case kl lib x y of
        None \<Rightarrow> Inl (AssertionError ''KL divergence is Null'')
      | Some dv \<Rightarrow> Inr dv)"

subsection \<open>Dictionaries\<close>

text \<open>
  A Python dictionary is an association list in insertion order.  \<^verbatim>\<open>d[k] = v\<close>
  replaces the value of a key that is present, in place, and appends a new key at the end.
\<close>

fun dict_set :: "'k \<Rightarrow> 'v \<Rightarrow> ('k \<times> 'v) list \<Rightarrow> ('k \<times> 'v) list" where
  "dict_set k v [] = [(k, v)]"
| "dict_set k v ((k', v') # kvs) =
     (if k' = k then (k, v) # kvs else (k', v') # dict_set k v kvs)"

definition keys :: "('k \<times> 'v) list \<Rightarrow> 'k list" where
  "keys d = map fst d"

text \<open>A list comprehension, or a map, whose body may raise: the first exception ends it.\<close>

fun traverse :: "('a \<Rightarrow> error + 'b) \<Rightarrow> 'a list \<Rightarrow> error + 'b list" where
  "traverse f [] = Inr []"
| "traverse f (a # as) =
     (case f a of
        Inl e \<Rightarrow> Inl e
      | Inr b \<Rightarrow> (case traverse f as of Inl e \<Rightarrow> Inl e | Inr bs \<Rightarrow> Inr (b # bs)))"

subsection \<open>The analysis session\<close>

text \<open>
  The attributes of \<^verbatim>\<open>EvaluateBatchEffects\<close> that the divergence computation reads and
  writes: the sample tables by sample id (their numeric columns, which is what
  \<^verbatim>\<open>select_dtypes(include='number').values\<close> keeps) and the cache of densities.
\<close>

record session =
  sample_ids :: "string list"
  data :: "(string \<times> table) list"
  kde_cache :: "(string \<times> real list) list"



text \<open>
  \<^verbatim>\<open>indexed_kde\<close>, and the estimator of lines 284 and 293: \<^verbatim>\<open>kde_multivariant\<close> with
  \<^verbatim>\<open>bandwidth='cross_val'\<close>, the given kernel and the default grid of 1000 points.
\<close>

definition indexed_kde ::
  "(table \<Rightarrow> error + real list) \<Rightarrow> string \<times> table \<Rightarrow> error + (string \<times> real list)" where
  "indexed_kde kde_f named_x =
     (case kde_f (snd named_x) of Inl e \<Rightarrow> Inl e | Inr q \<Rightarrow> Inr (fst named_x, q))"

definition kde_f :: "'m sklearn \<Rightarrow> string \<Rightarrow> table \<Rightarrow> error + real list" where
  "kde_f sk kde_kernel x =
     kde_multivariant sk x (BwStr ''cross_val'') None (Some 1000) [(''kernel'', kde_kernel)]"

definition divergence_msg :: string where
  "divergence_msg = ''Invalid divergence metric must be one of [jsd, kl, hellinger]''"

text \<open>The divergence that the method name selects (lines 301 to 305).\<close>

definition divergence :: "scipy \<Rightarrow> string \<Rightarrow> real list \<Rightarrow> real list \<Rightarrow> error + fval" where
  "divergence lib divergence_method p q =
     (if divergence_method = ''jsd'' then fst (jsd_divergence lib p q)
      else if divergence_method = ''kl'' then kl_divergence lib p q
      else hellinger_dot p q)"

text \<open>
  \<^verbatim>\<open>calc_divergence\<close>, with the estimator \<open>kde\<close> of lines 284 and 293 as an argument
  (\<open>kde_f sk kde_kernel\<close> in the source), in its three steps.  The worker pool maps the
  estimator over the samples in order; the progress lines printed when \<^verbatim>\<open>verbose\<close> is
  set are left out.

  Lines 281 to 284: the density of the target is estimated and stored if the cache has
  no entry for it.
\<close>

definition estimate_target ::
  "(table \<Rightarrow> error + real list) \<Rightarrow> session \<Rightarrow> string \<Rightarrow> error + session" where
  "estimate_target kde st target_id =
     (if target_id \<in> set (keys (kde_cache st)) then Inr st
      else (case map_of (data st) target_id of
              None \<Rightarrow> Inl (KeyError target_id)
            | Some target \<Rightarrow>
                (case kde target of
                   Inl e \<Rightarrow> Inl e
                 | Inr d \<Rightarrow> Inr (st\<lparr>kde_cache := dict_set target_id d (kde_cache st)\<rparr>))))"

text \<open>
  Lines 291 to 300: the samples that are among the comparisons and have no entry in the
  cache are estimated, then stored one by one.
\<close>

definition estimate_comparisons ::
  "(table \<Rightarrow> error + real list) \<Rightarrow> session \<Rightarrow> string list \<Rightarrow> error + session" where
  "estimate_comparisons kde st comparisons =
     (let samples_df = filter (\<lambda>(name, s). name \<in> set comparisons
                                    \<and> name \<notin> set (keys (kde_cache st))) (data st)
      in case traverse (indexed_kde kde) samples_df of
           Inl e \<Rightarrow> Inl e
         | Inr q_ \<Rightarrow>
             Inr (st\<lparr>kde_cache := fold (\<lambda>(name, q) c. dict_set name q c) q_ (kde_cache st)\<rparr>))"

text \<open>
  Lines 301 to 305: one pair per entry of the cache, the divergence between the cached
  density of the target and the density of the entry.
\<close>

definition divergences ::
  "scipy \<Rightarrow> session \<Rightarrow> string \<Rightarrow> string \<Rightarrow> error + (string \<times> fval) list" where
  "divergences lib st target_id divergence_method =
     traverse (\<lambda>(name, q).
                 case map_of (kde_cache st) target_id of
                   None \<Rightarrow> Inl (KeyError target_id)
                 | Some p \<Rightarrow>
                     (case divergence lib divergence_method p q of
                        Inl e \<Rightarrow> Inl e
                      | Inr d \<Rightarrow> Inr (name, d)))
              (kde_cache st)"

text \<open>The result is the outcome and the session afterwards.\<close>

definition calc_divergence ::
  "(table \<Rightarrow> error + real list) \<Rightarrow> scipy \<Rightarrow> session \<Rightarrow> string \<Rightarrow> string list \<Rightarrow> string
     \<Rightarrow> (error + (string \<times> fval) list) \<times> session" where
  "calc_divergence kde lib st target_id comparisons divergence_method =
     (if divergence_method \<notin> set [''jsd'', ''kl'', ''hellinger'']
      then (Inl (AssertionError divergence_msg), st)
      else case estimate_target kde st target_id of
             Inl e \<Rightarrow> (Inl e, st)
           | Inr st1 \<Rightarrow>
               (case estimate_comparisons kde st1 comparisons of
                  Inl e \<Rightarrow> (Inl e, st1)
                | Inr st2 \<Rightarrow> (divergences lib st2 target_id divergence_method, st2)))"

section \<open>Notions of the specification\<close>

text \<open>
  A non-empty sample table: at least one row, at least one column, every row with one
  entry per column.
\<close>

definition rectangular :: "table \<Rightarrow> bool" where
  "rectangular x = (x \<noteq> [] \<and> 0 < ncols x \<and> (\<forall>r \<in> set x. length r = ncols x))"

text \<open>
  The evaluation grid in the words of the specification: for each dimension on its own,
  a linear grid from that dimension's minimum to that dimension's maximum.
\<close>

definition column :: "table \<Rightarrow> nat \<Rightarrow> real list" where
  "column x j = map (\<lambda>r. r ! j) x"

definition per_dimension_grid :: "table \<Rightarrow> int \<Rightarrow> (error + real list) list" where
  "per_dimension_grid x n =
     map (\<lambda>j. linspace (Min (set (column x j))) (Max (set (column x j))) n) [0..<ncols x]"

section \<open>Example inputs\<close>

text \<open>
  Two populations of one threshold gate under the same parent, with the event indexes
  1, 2, 3 and 3, 4, 5.
\<close>

definition P1 :: population where
  "P1 = \<lparr> population_name = ''P1'', pop_n = 3, parent = ''root'',
          prop_of_parent = None, prop_of_total = None, warnings = [],
          geom = ThresholdGeom ''CD3'' ''CD4'' ''logicle'' ''logicle'' 1 2,
          clusters = [], pop_definition = Some ''++'', signature = [],
          index = Some [1, 2, 3], ctrl_index = [] \<rparr>"

definition P2 :: population where
  "P2 = \<lparr> population_name = ''P2'', pop_n = 3, parent = ''root'',
          prop_of_parent = None, prop_of_total = None, warnings = [],
          geom = ThresholdGeom ''CD3'' ''CD4'' ''logicle'' ''logicle'' 1 2,
          clusters = [], pop_definition = Some ''+-'', signature = [],
          index = Some [3, 4, 5], ctrl_index = [] \<rparr>"

text \<open>
  Variants of them: another x threshold, another parent on top of that, the name of
  \<open>P1\<close>, and that name under another parent.
\<close>

definition P3 :: population where
  "P3 = P2\<lparr>geom := ThresholdGeom ''CD3'' ''CD4'' ''logicle'' ''logicle'' 5 2\<rparr>"

definition P4 :: population where
  "P4 = P3\<lparr>parent := ''lymphocytes''\<rparr>"

definition P5 :: population where
  "P5 = P2\<lparr>population_name := ''P1''\<rparr>"

definition P6 :: population where
  "P6 = P5\<lparr>parent := ''lymphocytes''\<rparr>"

text \<open>Two polygon populations, and a geometry library that finds them disjoint.\<close>

definition Q1 :: population where
  "Q1 = P1\<lparr>geom := PolygonGeom ''CD3'' ''CD4'' ''logicle'' ''logicle'' [0, 1, 1, 0] [0, 0, 1, 1]\<rparr>"

definition Q2 :: population where
  "Q2 = P2\<lparr>geom := PolygonGeom ''CD3'' ''CD4'' ''logicle'' ''logicle'' [5, 6, 6, 5] [5, 5, 6, 6]\<rparr>"

definition disjoint_shapes :: shapely where
  "disjoint_shapes = \<lparr>intersects = (\<lambda>_ _. False), union_exterior = (\<lambda>_ _. ([], []))\<rparr>"

text \<open>A cluster, and \<open>P2\<close> carrying it.\<close>

definition k1 :: cluster where
  "k1 = \<lparr>cluster_id = ''k1'', meta_label = None, cluster_n = 2, prop_of_events = 1 / 2,
          tag = ''t'', cluster_index = Some [3, 4]\<rparr>"

definition P2k :: population where
  "P2k = P2\<lparr>clusters := [k1]\<rparr>"

text \<open>
  \<open>P1\<close> carrying the cluster, and two stores: one with \<open>P1k\<close> behind reference 0 and
  \<open>P2\<close> behind every other reference, and one with \<open>P2k\<close> behind every reference.
\<close>

definition P1k :: population where
  "P1k = P1\<lparr>clusters := [k1]\<rparr>"

definition two_objects :: store where
  "two_objects = (\<lambda>_. P2)(0 := P1k)"

definition one_object :: store where
  "one_object = (\<lambda>_. P2k)"

text \<open>
  A table of two samples in two dimensions with different ranges, a table of twenty
  samples that are all zero, and an estimator library whose search takes the first
  candidate and whose fitted density is 1 everywhere.
\<close>

definition X2 :: table where
  "X2 = [[0, 10], [1, 20]]"

definition Z20 :: table where
  "Z20 = replicate 20 [0]"

definition flat_sklearn :: "real sklearn" where
  "flat_sklearn = \<lparr>grid_search = (\<lambda>cands x. Inr (hd cands)),
                    kde_fit = (\<lambda>b kwargs x. Inr b),
                    log_density = (\<lambda>kde row. 0)\<rparr>"

text \<open>A statistics library whose divergences are zero.\<close>

definition zero_scipy :: scipy where
  "zero_scipy = \<lparr>jsd = (\<lambda>_ _. Some (Finite 0)), kl = (\<lambda>_ _. Some (Finite 0))\<rparr>"

text \<open>
  A session with three samples in which the density of sample C is cached already, an
  estimator that returns the first column of the table, and a loader.
\<close>

definition S0 :: session where
  "S0 = \<lparr>sample_ids = [''A'', ''B'', ''C''],
         data = [(''A'', [[1, 2]]), (''B'', [[3, 4]]), (''C'', [[5, 6]])],
         kde_cache = [(''C'', [9])]\<rparr>"

definition S1 :: session where
  "S1 = S0\<lparr>kde_cache := [(''C'', [9]), (''A'', [1]), (''B'', [3])]\<rparr>"

definition first_column :: "table \<Rightarrow> error + real list" where
  "first_column x = Inr (map hd x)"



section \<open>Properties of the population merge\<close>

lemmas merge_defs =
  merge_populations_def merge_thresholds_def merge_polygons_def new_population_def
  check_transforms_dimensions_def check_overlap_def same_geom_type_def default_name_def

lemma set_merge_index: "set (merge_index l r) = set l \<union> set r"
  by (simp add: merge_index_def)

lemma length_merge_index: "length (merge_index l r) = card (set l \<union> set r)"
  by (simp add: merge_index_def length_remdups_card_conv)

text \<open>
  A merge that returns a population returns the union of the two indexes, and the sum
  of their lengths as \<open>pop_n\<close>.
\<close>

lemma merge_populations_index_n:
  assumes "fst (merge_populations lib l r nm) = Inr m"
  shows "\<exists>li ri. index l = Some li \<and> index r = Some ri
           \<and> index m = Some (merge_index li ri)
           \<and> pop_n m = int (length li) + int (length ri)"
  using assms
  by (auto simp: merge_defs Let_def split: if_splits sum.splits option.splits prod.splits)

text \<open>
  C1.  Merging the populations with the indexes 1, 2, 3 and 3, 4, 5 returns a population
  whose index is the union 1, 2, 3, 4, 5, of five events, but whose size field is 6: the
  constructor is given \<^verbatim>\<open>n=len(left.index) + len(right.index)\<close>, which counts the shared
  event 3 twice, and the index is stored without passing through the property setter
  that keeps \<^verbatim>\<open>n = len(idx)\<close>.
\<close>

theorem merge_populations_size_counts_duplicates:
  "map_sum id (\<lambda>m. (index m, pop_n m)) (fst (merge_populations lib P1 P2 None))
     = Inr (Some [1, 2, 3, 4, 5], 6)
   \<and> card (set [1, 2, 3, 4, 5 :: int]) = 5"
  by (simp add: merge_defs P1_def P2_def merge_index_def Let_def)

lemma polygon_not_threshold: "is_PolygonGeom g \<Longrightarrow> \<not> is_ThresholdGeom g"
  by (cases g) simp_all

text \<open>
  C4, as stated, fails where the parents differ: the parent check of
  \<^verbatim>\<open>merge_populations\<close> comes before the geometry is looked at, so two threshold
  populations with matching axes and transforms, different x thresholds and different
  parents fail with the parent assertion, not with a threshold assertion.
\<close>

theorem threshold_mismatch_other_parent_counterexample:
  "check_transforms_dimensions P1 P4 = Inr ()
   \<and> is_ThresholdGeom (geom P1) \<and> is_ThresholdGeom (geom P4)
   \<and> x_threshold (geom P1) \<noteq> x_threshold (geom P4)
   \<and> fst (merge_populations disjoint_shapes P1 P4 None) = Inl (AssertionError parent_msg)
   \<and> \<not> IncompatibleGeometryError (AssertionError parent_msg)"
  by (simp add: merge_defs P1_def P2_def P3_def P4_def IncompatibleGeometryError_def
        parent_msg_def x_threshold_msg_def y_threshold_msg_def)

text \<open>
  C4, amended.  For two populations with matching axes and transforms and the same
  parent: if both have a threshold geometry and the x or the y thresholds differ, the
  merge fails with a threshold assertion; if both have a polygon geometry and the
  shapes do not intersect, it fails with the overlap assertion.  In both cases no
  population is returned, nothing is written to the arguments and no warning is emitted.
\<close>

theorem merge_populations_geometry_errors:
  assumes "check_transforms_dimensions left right = Inr ()" and "parent left = parent right"
  shows "(is_ThresholdGeom (geom left) \<and> is_ThresholdGeom (geom right)
            \<and> (x_threshold (geom left) \<noteq> x_threshold (geom right)
                 \<or> y_threshold (geom left) \<noteq> y_threshold (geom right))
          \<longrightarrow> (\<exists>e. merge_populations lib left right nm
                       = (Inl e, \<lparr>left_after = left, right_after = right, warned = []\<rparr>)
                     \<and> IncompatibleGeometryError e))
       \<and> (is_PolygonGeom (geom left) \<and> is_PolygonGeom (geom right)
            \<and> \<not> intersects lib (geom left) (geom right)
          \<longrightarrow> (\<exists>e. merge_populations lib left right nm
                       = (Inl e, \<lparr>left_after = left, right_after = right, warned = []\<rparr>)
                     \<and> NonOverlappingGeometryError e))"
proof (intro conjI impI)
  assume "is_ThresholdGeom (geom left) \<and> is_ThresholdGeom (geom right)
            \<and> (x_threshold (geom left) \<noteq> x_threshold (geom right)
                 \<or> y_threshold (geom left) \<noteq> y_threshold (geom right))"
  then show "\<exists>e. merge_populations lib left right nm
                       = (Inl e, \<lparr>left_after = left, right_after = right, warned = []\<rparr>)
                     \<and> IncompatibleGeometryError e"
    using assms
    by (auto simp: merge_populations_def merge_thresholds_def same_geom_type_def
          IncompatibleGeometryError_def)
next
  assume h: "is_PolygonGeom (geom left) \<and> is_PolygonGeom (geom right)
            \<and> \<not> intersects lib (geom left) (geom right)"
  then have "\<not> is_ThresholdGeom (geom left)" "\<not> is_ThresholdGeom (geom right)"
    by (simp_all add: polygon_not_threshold)
  with h show "\<exists>e. merge_populations lib left right nm
                       = (Inl e, \<lparr>left_after = left, right_after = right, warned = []\<rparr>)
                     \<and> NonOverlappingGeometryError e"
    using assms
    by (auto simp: merge_populations_def merge_polygons_def check_overlap_def
          same_geom_type_def NonOverlappingGeometryError_def)
qed

theorem merge_populations_geometry_errors_witness:
  "check_transforms_dimensions P1 P3 = Inr () \<and> parent P1 = parent P3
   \<and> is_ThresholdGeom (geom P1) \<and> is_ThresholdGeom (geom P3)
   \<and> x_threshold (geom P1) \<noteq> x_threshold (geom P3)
   \<and> merge_populations disjoint_shapes P1 P3 None
        = (Inl (AssertionError x_threshold_msg),
           \<lparr>left_after = P1, right_after = P3, warned = []\<rparr>)
   \<and> check_transforms_dimensions Q1 Q2 = Inr () \<and> parent Q1 = parent Q2
   \<and> is_PolygonGeom (geom Q1) \<and> is_PolygonGeom (geom Q2)
   \<and> \<not> intersects disjoint_shapes (geom Q1) (geom Q2)
   \<and> merge_populations disjoint_shapes Q1 Q2 None
        = (Inl (AssertionError overlap_msg),
           \<lparr>left_after = Q1, right_after = Q2, warned = []\<rparr>)"
  using merge_populations_geometry_errors [of P1 P3 disjoint_shapes None]
        merge_populations_geometry_errors [of Q1 Q2 disjoint_shapes None]
  by (simp add: merge_defs P1_def P2_def P3_def Q1_def Q2_def disjoint_shapes_def
        IncompatibleGeometryError_def NonOverlappingGeometryError_def)

subsection \<open>Merging by reference\<close>

text \<open>
  The merge on values gives the result, the write to the left argument and the
  warnings of the merge on references, for every two references, equal or not.
\<close>

lemma thresholds_ref_value:
  "merge_thresholds_ref s l r nm
     = (fst (merge_thresholds (s l) (s r) nm),
        s(l := left_after (snd (merge_thresholds (s l) (s r) nm))),
        warned (snd (merge_thresholds (s l) (s r) nm)))"
proof (cases "x_threshold (geom (s l)) \<noteq> x_threshold (geom (s r))
              \<or> y_threshold (geom (s l)) \<noteq> y_threshold (geom (s r))")
  case True
  then show ?thesis by (auto simp: merge_thresholds_ref_def merge_thresholds_def)
next
  case False
  show ?thesis
  proof (cases "clusters (s l) \<noteq> [] \<or> clusters (s r) \<noteq> []")
    case True
    with False show ?thesis
      by (cases "r = l")
         (simp_all add: merge_thresholds_ref_def merge_thresholds_def new_population_def Let_def
            split: option.splits)
  next
    case void: False
    with False show ?thesis
      by (simp add: merge_thresholds_ref_def merge_thresholds_def Let_def
            split: option.splits)
  qed
qed

lemma populations_ref_value:
  "merge_populations_ref lib s l r nm
     = (fst (merge_populations lib (s l) (s r) nm),
        s(l := left_after (snd (merge_populations lib (s l) (s r) nm))),
        warned (snd (merge_populations lib (s l) (s r) nm)))"
proof (cases "check_transforms_dimensions (s l) (s r)")
  case (Inl e)
  then show ?thesis by (simp add: merge_populations_ref_def merge_populations_def Let_def)
next
  case (Inr u)
  show ?thesis
  proof (cases "parent (s l) \<noteq> parent (s r) \<or> \<not> same_geom_type (geom (s l)) (geom (s r))")
    case True
    with Inr show ?thesis
      by (auto simp: merge_populations_ref_def merge_populations_def Let_def)
  next
    case False
    show ?thesis
    proof (cases "is_ThresholdGeom (geom (s l))")
      case True
      with Inr False show ?thesis
        by (simp add: merge_populations_ref_def merge_populations_def thresholds_ref_value
              Let_def)
    next
      case p: False
      have "snd (merge_polygons lib (s l) (s r) (default_name nm (s l) (s r)))
              = \<lparr>left_after = s l, right_after = s r, warned = []\<rparr>"
        by (simp add: merge_polygons_def Let_def split: sum.splits prod.splits)
      with Inr False p show ?thesis
        by (simp add: merge_populations_ref_def merge_populations_def Let_def)
    qed
  qed
qed

lemma merge_thresholds_ref_write:
  assumes "x_threshold (geom (s l)) = x_threshold (geom (s r))"
    and "y_threshold (geom (s l)) = y_threshold (geom (s r))"
    and "clusters (s l) \<noteq> [] \<or> clusters (s r) \<noteq> []"
  shows "snd (merge_thresholds_ref s l r name)
           = (s(l := (s l)\<lparr>clusters := []\<rparr>),
              clusters_void_msg # (if ctrl_index (s l) \<noteq> [] \<or> ctrl_index (s r) \<noteq> []
                                   then [ctrl_void_msg] else []))"
  using assms
  by (cases "r = l") (simp_all add: merge_thresholds_ref_def Let_def split: option.splits)

lemma merge_thresholds_ref_result:
  assumes "x_threshold (geom (s l)) = x_threshold (geom (s r))"
    and "y_threshold (geom (s l)) = y_threshold (geom (s r))"
    and "index (s l) = Some li" and "index (s r) = Some ri"
    and "pop_definition (s l) = Some dl" and "pop_definition (s r) = Some dr"
  shows "\<exists>m. fst (merge_thresholds_ref s l r name) = Inr m"
  using assms
  by (cases "r = l") (simp_all add: merge_thresholds_ref_def new_population_def Let_def)

text \<open>
  C9, as stated, fails when the same object is passed as both arguments: the object
  carries a cluster before the merge, and after it the clusters of the right argument,
  which is that object, are empty.
\<close>

theorem merge_same_object_voids_right_counterexample:
  "clusters (one_object 0) = [k1]
   \<and> clusters (fst (snd (merge_populations_ref disjoint_shapes one_object 0 0 None)) 0) = []"
  by (simp add: merge_populations_ref_def merge_thresholds_ref_def merge_defs one_object_def
        P2_def P2k_def Let_def)

text \<open>
  C9, amended.  For two populations with threshold geometries that pass the checks of
  the merge (matching axes, transforms, parent and thresholds), at least one of which
  carries clusters: the merge writes the left argument, whose clusters become the empty
  list, writes nothing else and warns that the clusters are void; so the clusters of the
  right argument are unchanged when it is another object than the left one, and are
  emptied with the left one's when both arguments are the same object.  This happens in
  addition to producing the merged record, which is returned whenever both indexes and
  both definitions are present.
\<close>

theorem merge_ref_voids_left_clusters:
  assumes "is_ThresholdGeom (geom (s l))" and "is_ThresholdGeom (geom (s r))"
    and "check_transforms_dimensions (s l) (s r) = Inr ()" and "parent (s l) = parent (s r)"
    and "x_threshold (geom (s l)) = x_threshold (geom (s r))"
    and "y_threshold (geom (s l)) = y_threshold (geom (s r))"
    and "clusters (s l) \<noteq> [] \<or> clusters (s r) \<noteq> []"
  shows "merge_populations_ref lib s l r nm
           = (fst (merge_populations lib (s l) (s r) nm),
              s(l := (s l)\<lparr>clusters := []\<rparr>),
              clusters_void_msg # (if ctrl_index (s l) \<noteq> [] \<or> ctrl_index (s r) \<noteq> []
                                   then [ctrl_void_msg] else []))
       \<and> (index (s l) \<noteq> None \<and> index (s r) \<noteq> None
            \<and> pop_definition (s l) \<noteq> None \<and> pop_definition (s r) \<noteq> None
           \<longrightarrow> (\<exists>m. fst (merge_populations_ref lib s l r nm) = Inr m))"
proof -
  let ?name = "default_name nm (s l) (s r)"
  have red: "merge_populations_ref lib s l r nm = merge_thresholds_ref s l r ?name"
    using assms(1-4) by (simp add: merge_populations_ref_def same_geom_type_def Let_def)
  have res: "fst (merge_populations_ref lib s l r nm)
               = fst (merge_populations lib (s l) (s r) nm)"
    by (simp add: populations_ref_value)
  have eff: "snd (merge_populations_ref lib s l r nm)
               = (s(l := (s l)\<lparr>clusters := []\<rparr>),
                  clusters_void_msg # (if ctrl_index (s l) \<noteq> [] \<or> ctrl_index (s r) \<noteq> []
                                       then [ctrl_void_msg] else []))"
    using merge_thresholds_ref_write [OF assms(5-7), of ?name] red by simp
  have eq: "merge_populations_ref lib s l r nm
              = (fst (merge_populations lib (s l) (s r) nm),
                 s(l := (s l)\<lparr>clusters := []\<rparr>),
                 clusters_void_msg # (if ctrl_index (s l) \<noteq> [] \<or> ctrl_index (s r) \<noteq> []
                                      then [ctrl_void_msg] else []))"
    using res eff by (cases "merge_populations_ref lib s l r nm") simp
  have ok: "\<exists>m. fst (merge_populations_ref lib s l r nm) = Inr m"
    if "index (s l) \<noteq> None \<and> index (s r) \<noteq> None
          \<and> pop_definition (s l) \<noteq> None \<and> pop_definition (s r) \<noteq> None"
  proof -
    from that obtain li ri dl dr where "index (s l) = Some li" "index (s r) = Some ri"
      "pop_definition (s l) = Some dl" "pop_definition (s r) = Some dr" by auto
    then show ?thesis
      using merge_thresholds_ref_result [OF assms(5,6), of li ri dl dr ?name] red by simp
  qed
  from eq ok show ?thesis by (intro conjI impI)
qed

theorem merge_ref_voids_left_clusters_witness:
  "is_ThresholdGeom (geom (two_objects 0)) \<and> is_ThresholdGeom (geom (two_objects 1))
   \<and> check_transforms_dimensions (two_objects 0) (two_objects 1) = Inr ()
   \<and> parent (two_objects 0) = parent (two_objects 1)
   \<and> x_threshold (geom (two_objects 0)) = x_threshold (geom (two_objects 1))
   \<and> y_threshold (geom (two_objects 0)) = y_threshold (geom (two_objects 1))
   \<and> clusters (two_objects 0) = [k1]
   \<and> fst (snd (merge_populations_ref disjoint_shapes two_objects 0 1 None))
        = two_objects(0 := P1)
   \<and> snd (snd (merge_populations_ref disjoint_shapes two_objects 0 1 None))
        = [clusters_void_msg]
   \<and> map_sum id index (fst (merge_populations_ref disjoint_shapes two_objects 0 1 None))
        = Inr (Some [1, 2, 3, 4, 5])
   \<and> clusters (one_object 0) = [k1]
   \<and> fst (snd (merge_populations_ref disjoint_shapes one_object 0 0 None))
        = one_object(0 := P2)"
  using merge_ref_voids_left_clusters [of two_objects 0 1 disjoint_shapes None]
        merge_ref_voids_left_clusters [of one_object 0 0 disjoint_shapes None]
  by (simp add: merge_populations_ref_def merge_thresholds_ref_def merge_defs
        two_objects_def one_object_def P1_def P2_def P1k_def P2k_def k1_def
        merge_index_def Let_def)

subsection \<open>The many-way merge\<close>

lemma foldl_merge_Inl:
  "foldl (\<lambda>acc p2. case acc of Inl e \<Rightarrow> Inl e
                            | Inr a \<Rightarrow> fst (merge_populations lib a p2 None))
         (Inl e) rest = Inl e"
  by (induction rest) simp_all

text \<open>The reduction of the source is the left fold of the specification.\<close>

lemma reduce_merge_left_fold: "fst (reduce_merge lib p rest) = left_fold_merge lib p rest"
proof (induction rest arbitrary: p)
  case Nil
  show ?case by (simp add: left_fold_merge_def)
next
  case (Cons q rest)
  obtain r eff where m: "merge_populations lib p q None = (r, eff)"
    by (cases "merge_populations lib p q None")
  show ?case
  proof (cases r)
    case (Inl e)
    with m show ?thesis by (simp add: left_fold_merge_def foldl_merge_Inl)
  next
    case (Inr a)
    obtain r' p' ws where rm: "reduce_merge lib a rest = (r', p', ws)"
      by (cases "reduce_merge lib a rest") auto
    have "r' = left_fold_merge lib a rest" using Cons.IH [of a] rm by simp
    with m Inr rm show ?thesis by (simp add: left_fold_merge_def)
  qed
qed

lemma names_card:
  "card (set (map population_name (p # rest))) = 1
     \<longleftrightarrow> (\<forall>q \<in> set rest. population_name q = population_name p)"
proof
  assume "card (set (map population_name (p # rest))) = 1"
  then obtain a where a: "set (map population_name (p # rest)) = {a}"
    by (auto simp: card_1_singleton_iff)
  then have "population_name p = a" by auto
  moreover have "\<forall>q \<in> set rest. population_name q = a" using a by auto
  ultimately show "\<forall>q \<in> set rest. population_name q = population_name p" by simp
next
  assume "\<forall>q \<in> set rest. population_name q = population_name p"
  then have "set (map population_name (p # rest)) = {population_name p}" by auto
  then have "card (set (map population_name (p # rest))) = card {population_name p}"
    by (simp only:)
  then show "card (set (map population_name (p # rest))) = 1" by simp
qed

text \<open>
  C7, as stated, fails where a pairwise merge fails: two populations of the same name
  under different parents pass the name check, and the merge then fails with the parent
  assertion.
\<close>

theorem same_name_merge_fails_counterexample:
  "population_name P1 = population_name P6
   \<and> fst (merge_multiple_populations disjoint_shapes [P1, P6] None)
        = Inl (AssertionError parent_msg)"
  by (simp add: merge_multiple_populations_def merge_defs P1_def P2_def P5_def P6_def)

text \<open>
  C7, amended.  For a non-empty list of populations and no new name: when all
  populations have the same name, the result is the left fold of the pairwise merges in
  list order, renamed to the shared name if the fold returns a population (and the
  failure of the fold otherwise); when the names differ, the merge fails with the
  assertion on the names.
\<close>

theorem merge_multiple_populations_no_name:
  assumes "populations \<noteq> []"
  shows "fst (merge_multiple_populations lib populations None) =
           (if \<forall>q \<in> set populations. population_name q = population_name (hd populations)
            then map_sum id (\<lambda>m. m\<lparr>population_name := population_name (hd populations)\<rparr>)
                   (left_fold_merge lib (hd populations) (tl populations))
            else Inl (AssertionError same_name_msg))"
proof -
  obtain p rest where ps: "populations = p # rest" using assms by (cases populations) auto
  obtain r p' ws where rm: "reduce_merge lib p rest = (r, p', ws)"
    by (cases "reduce_merge lib p rest") auto
  have r: "r = left_fold_merge lib p rest"
    using reduce_merge_left_fold [of lib p rest] rm by simp
  show ?thesis
  proof (cases "\<forall>q \<in> set rest. population_name q = population_name p")
    case True
    then have "card (set (map population_name (p # rest))) = 1"
      using names_card [of p rest] by blast
    with True ps rm r show ?thesis
      by (cases "left_fold_merge lib p rest")
         (simp_all add: merge_multiple_populations_def Let_def)
  next
    case False
    then have "card (set (map population_name (p # rest))) \<noteq> 1"
      using names_card [of p rest] by blast
    with False ps show ?thesis by (auto simp: merge_multiple_populations_def)
  qed
qed

theorem merge_multiple_populations_no_name_witness:
  "[P1, P5, P1] \<noteq> []
   \<and> population_name P5 = population_name P1
   \<and> map_sum id population_name (fst (merge_multiple_populations disjoint_shapes [P1, P5, P1] None))
        = Inr ''P1''
   \<and> map_sum id index (left_fold_merge disjoint_shapes P1 [P5, P1]) = Inr (Some [1, 2, 3, 4, 5])
   \<and> [P1, P2, P1] \<noteq> []
   \<and> population_name P2 \<noteq> population_name P1
   \<and> fst (merge_multiple_populations disjoint_shapes [P1, P2, P1] None)
        = Inl (AssertionError same_name_msg)
   \<and> AmbiguousNameError (AssertionError same_name_msg)"
  using merge_multiple_populations_no_name [of "[P1, P5, P1]" disjoint_shapes]
        merge_multiple_populations_no_name [of "[P1, P2, P1]" disjoint_shapes]
  by (simp add: left_fold_merge_def merge_defs P1_def P2_def P5_def merge_index_def Let_def
        AmbiguousNameError_def)

section \<open>Properties of the density estimation\<close>

lemma fold_min_Min: "fold min vs (v::real) = Min (set (v # vs))"
  by (simp only: Min.set_eq_fold)

lemma fold_max_Max: "fold max vs (v::real) = Max (set (v # vs))"
  by (simp only: Max.set_eq_fold)

lemma amin_Min: "concat x \<noteq> [] \<Longrightarrow> amin x = Inr (Min (set (concat x)))"
  by (cases "concat x") (simp_all add: amin_def fold_min_Min del: set_simps set_concat)

lemma amax_Max: "concat x \<noteq> [] \<Longrightarrow> amax x = Inr (Max (set (concat x)))"
  by (cases "concat x") (simp_all add: amax_def fold_max_Max del: set_simps set_concat)

lemma rectangular_concat: "rectangular x \<Longrightarrow> concat x \<noteq> []"
  by (cases x) (auto simp: rectangular_def ncols_def)

lemma heads_replicate:
  "concat (map (\<lambda>ys. case ys of [] \<Rightarrow> [] | h # t \<Rightarrow> [h]) (replicate n (a # g))) = replicate n a"
  by (induction n) simp_all

lemma tails_replicate:
  "concat (map (\<lambda>ys. case ys of [] \<Rightarrow> [] | h # t \<Rightarrow> [t]) (replicate n (a # g))) = replicate n g"
  by (induction n) simp_all

lemma transpose_replicate_Nil: "transpose (replicate d ([] :: 'a list)) = []"
  by (induction d) simp_all

text \<open>The transposed grid: one point per grid value, the value in every coordinate.\<close>

lemma transpose_replicate:
  "0 < d \<Longrightarrow> transpose (replicate d g) = map (\<lambda>v. replicate d v) g"
proof (induction g)
  case Nil
  show ?case by (simp add: transpose_replicate_Nil)
next
  case (Cons a g)
  then obtain d' where d: "d = Suc d'" by (cases d) auto
  have "transpose (replicate (Suc d') (a # g))
          = (a # replicate d' a) # transpose (g # replicate d' g)"
    by (simp add: heads_replicate tails_replicate)
  then have "transpose (replicate d (a # g)) = replicate d a # transpose (replicate d g)"
    by (simp add: d)
  with Cons show ?case by simp
qed

lemma length_linspace: "0 \<le> n \<Longrightarrow> \<exists>g. linspace a b n = Inr g \<and> length g = nat n"
  by (auto simp: linspace_def)

text \<open>With no grid points the grid has no rows, and the evaluation is refused.\<close>

lemma kde_multivariant_no_grid_points:
  assumes "rectangular x"
    and "choose_bandwidth lib x bw bs = Inr b" and "kde_fit lib b kwargs x = Inr kde"
  shows "kde_multivariant lib x bw bs (Some 0) kwargs
           = Inl (ValueError ''Found array with 0 sample(s)'')"
proof -
  have ne: "concat x \<noteq> []" using assms(1) by (rule rectangular_concat)
  have "x_grid x 0 = Inr (replicate (ncols x) [])"
    by (simp add: x_grid_def amin_Min [OF ne] amax_Max [OF ne] linspace_def del: set_concat)
  then show ?thesis
    by (simp add: kde_multivariant_def score_samples_def assms(2,3) transpose_replicate_Nil)
qed

text \<open>
  C2, as stated, fails: on the table with the rows (0, 10) and (1, 20) and three grid
  points the grid of the code is 0, 10, 20 in both dimensions, while the grids from each
  dimension's own minimum to its own maximum are 0, 1/2, 1 and 10, 15, 20.
\<close>

theorem x_grid_not_per_dimension_counterexample:
  "x_grid X2 3 = Inr [[0, 10, 20], [0, 10, 20]]
   \<and> per_dimension_grid X2 3 = [Inr [0, 1 / 2, 1], Inr [10, 15, 20]]"
  by (simp add: X2_def x_grid_def amin_def amax_def linspace_def ncols_def column_def
        per_dimension_grid_def eval_nat_numeral)

text \<open>
  C2, amended.  For a non-empty table and a grid size that is provided and positive,
  once the bandwidth is chosen and the estimator is fitted: the grid is the same in
  every dimension, linearly spaced from the least entry of the whole table to its
  greatest entry with \<open>grid_size\<close> points; the fitted density is evaluated at the points
  that have one grid value in every coordinate; the result is the \<open>grid_size\<close> density
  values exponentiated from log-space.
\<close>

theorem kde_multivariant_grid:
  assumes "rectangular x" and "0 < n"
    and "choose_bandwidth lib x bw bs = Inr b" and "kde_fit lib b kwargs x = Inr kde"
  shows "\<exists>g. linspace (Min (set (concat x))) (Max (set (concat x))) n = Inr g
           \<and> length g = nat n
           \<and> x_grid x n = Inr (replicate (ncols x) g)
           \<and> kde_multivariant lib x bw bs (Some n) kwargs
               = Inr (map (\<lambda>v. exp (log_density lib kde (replicate (ncols x) v))) g)"
proof -
  have ne: "concat x \<noteq> []" using assms(1) by (rule rectangular_concat)
  have d: "0 < ncols x" using assms(1) by (simp add: rectangular_def)
  have n0: "0 \<le> n" using assms(2) by simp
  obtain g where g: "linspace (Min (set (concat x))) (Max (set (concat x))) n = Inr g"
    and lg: "length g = nat n"
    using length_linspace [OF n0] by blast
  have gne: "g \<noteq> []" using lg assms(2) by auto
  have xg: "x_grid x n = Inr (replicate (ncols x) g)"
    by (simp add: x_grid_def amin_Min [OF ne] amax_Max [OF ne] g del: set_concat)
  have "kde_multivariant lib x bw bs (Some n) kwargs
               = Inr (map (\<lambda>v. exp (log_density lib kde (replicate (ncols x) v))) g)"
    by (simp add: kde_multivariant_def score_samples_def assms(3,4) xg
          transpose_replicate [OF d] gne comp_def)
  with g lg xg show ?thesis by blast
qed

theorem kde_multivariant_grid_witness:
  "rectangular X2 \<and> (0::int) < 3
   \<and> choose_bandwidth flat_sklearn X2 (BwNum 1) None = Inr 1
   \<and> kde_fit flat_sklearn 1 [] X2 = Inr 1
   \<and> x_grid X2 3 = Inr [[0, 10, 20], [0, 10, 20]]
   \<and> kde_multivariant flat_sklearn X2 (BwNum 1) None (Some 3) [] = Inr [1, 1, 1]"
  using kde_multivariant_grid [of X2 3 flat_sklearn "BwNum 1" None 1 "[]" 1]
  by (simp add: rectangular_def X2_def ncols_def flat_sklearn_def choose_bandwidth_def
        x_grid_def amin_def amax_def linspace_def kde_multivariant_def score_samples_def
        eval_nat_numeral)

text \<open>
  C5.  On a table of twenty zeros both percentiles are 0, so the range of the search
  collapses to zero, and the candidate bandwidths are thirty times 0: the lower bound
  is the 5th percentile, not 0.01.  The guard \<^verbatim>\<open>if bandwidth_search == 0\<close> compares the
  list of the two bounds with a number, which is never true, so the assignment
  \<^verbatim>\<open>bandwidth_search[0] = 0.01\<close> is never reached.
\<close>

theorem bandwidth_floor_never_applied:
  "default_bandwidth_search Z20 = Inr [0, 0]
   \<and> bandwidth_grid Z20 None = Inr (replicate 30 0)"
  by (simp add: Z20_def bandwidth_grid_def default_bandwidth_search_def quantile_def
        list_eq_int_def Let_def linspace_def map_replicate_const)

section \<open>Properties of the divergence cache\<close>

lemma map_of_dict_set: "map_of (dict_set k v d) = (map_of d)(k \<mapsto> v)"
  by (induction d) (auto simp: fun_eq_iff)

lemma keys_dict_set: "set (keys (dict_set k v d)) = insert k (set (keys d))"
proof (induction d)
  case Nil
  show ?case by (simp add: keys_def)
next
  case (Cons a d)
  obtain k' v' where a: "a = (k', v')" by (cases a)
  have "set (map fst (dict_set k v d)) = insert k (set (map fst d))"
    using Cons.IH by (simp only: keys_def)
  then show ?case unfolding keys_def a by (cases "k' = k") (simp_all add: insert_commute)
qed

lemma in_keys_iff: "k \<in> set (keys d) \<longleftrightarrow> map_of d k \<noteq> None"
  by (simp add: keys_def map_of_eq_None_iff)

lemma fold_dict_set_lookup:
  "map_of (fold (\<lambda>(name, q) c. dict_set name q c) qs c) k = Some v
     \<Longrightarrow> map_of c k = Some v \<or> (k, v) \<in> set qs"
proof (induction qs arbitrary: c)
  case Nil
  then show ?case by simp
next
  case (Cons a qs)
  obtain n q where a: "a = (n, q)" by (cases a)
  from Cons.prems have "map_of (fold (\<lambda>(name, q) c. dict_set name q c) qs (dict_set n q c)) k = Some v"
    by (simp add: a)
  then have "map_of (dict_set n q c) k = Some v \<or> (k, v) \<in> set qs" by (rule Cons.IH)
  then show ?case by (cases "k = n") (auto simp: a map_of_dict_set)
qed

lemma fold_dict_set_keep:
  "k \<notin> fst ` set qs \<Longrightarrow> map_of (fold (\<lambda>(name, q) c. dict_set name q c) qs c) k = map_of c k"
proof (induction qs arbitrary: c)
  case Nil
  show ?case by simp
next
  case (Cons a qs)
  obtain n q where a: "a = (n, q)" by (cases a)
  from Cons.prems have n: "k \<noteq> n" and rest: "k \<notin> fst ` set qs" by (auto simp: a)
  have "map_of (fold (\<lambda>(name, q) c. dict_set name q c) qs (dict_set n q c)) k = map_of (dict_set n q c) k"
    using rest by (rule Cons.IH)
  with n show ?case by (simp add: a map_of_dict_set)
qed

lemma fold_dict_set_keys:
  "set (keys (fold (\<lambda>(name, q) c. dict_set name q c) qs c)) = set (keys c) \<union> fst ` set qs"
proof (induction qs arbitrary: c)
  case Nil
  show ?case by simp
next
  case (Cons a qs)
  obtain n q where a: "a = (n, q)" by (cases a)
  have "set (keys (fold (\<lambda>(name, q) c. dict_set name q c) qs (dict_set n q c)))
          = set (keys (dict_set n q c)) \<union> fst ` set qs" by (rule Cons.IH)
  then show ?case by (simp add: a keys_dict_set)
qed

lemma traverse_Inr: "traverse f xs = Inr ys \<Longrightarrow> list_all2 (\<lambda>x y. f x = Inr y) xs ys"
proof (induction xs arbitrary: ys)
  case Nil
  then show ?case by simp
next
  case (Cons x xs)
  from Cons.prems obtain b bs where "f x = Inr b" "traverse f xs = Inr bs" "ys = b # bs"
    by (auto split: sum.splits)
  with Cons.IH [of bs] show ?case by simp
qed

lemma traverse_indexed_kde:
  "traverse (indexed_kde kde) xs = Inr ys \<Longrightarrow> (k, v) \<in> set ys
     \<Longrightarrow> \<exists>tbl. (k, tbl) \<in> set xs \<and> kde tbl = Inr v"
proof (induction xs arbitrary: ys)
  case Nil
  then show ?case by simp
next
  case (Cons x xs)
  from Cons.prems(1) obtain b bs where b: "indexed_kde kde x = Inr b"
    and bs: "traverse (indexed_kde kde) xs = Inr bs" and ys: "ys = b # bs"
    by (auto split: sum.splits)
  from b have bx: "fst b = fst x" "kde (snd x) = Inr (snd b)"
    by (auto simp: indexed_kde_def split: sum.splits)
  from Cons.prems(2) ys consider "b = (k, v)" | "(k, v) \<in> set bs" by auto
  then show ?case
  proof cases
    case 1
    with bx have "(k, snd x) = x" "kde (snd x) = Inr v" by (cases x; simp)+
    then have "(k, snd x) \<in> set (x # xs) \<and> kde (snd x) = Inr v" by simp
    then show ?thesis by blast
  next
    case 2
    then obtain tbl where "(k, tbl) \<in> set xs" "kde tbl = Inr v" using Cons.IH [OF bs] by blast
    then show ?thesis by auto
  qed
qed


lemma estimate_target_cases:
  assumes "estimate_target kde st t = Inr st1"
  obtains (cached) "t \<in> set (keys (kde_cache st))" "st1 = st"
    | (estimated) tbl d where "t \<notin> set (keys (kde_cache st))" "map_of (data st) t = Some tbl"
        "kde tbl = Inr d" "st1 = st\<lparr>kde_cache := dict_set t d (kde_cache st)\<rparr>"
  using assms
  by (auto simp: estimate_target_def split: if_splits option.splits sum.splits)

lemma estimate_target_cache:
  assumes "estimate_target kde st t = Inr st1"
  shows "data st1 = data st"
    and "t \<in> set (keys (kde_cache st1))"
    and "map_of (kde_cache st) k = Some v \<Longrightarrow> map_of (kde_cache st1) k = Some v"
    and "map_of (kde_cache st1) k = Some v \<Longrightarrow> map_of (kde_cache st) k = None
          \<Longrightarrow> k = t \<and> (\<exists>tbl. (k, tbl) \<in> set (data st) \<and> kde tbl = Inr v)"
    and "set (keys (kde_cache st)) \<subseteq> set (keys (kde_cache st1))"
proof -
  show "data st1 = data st"
    using assms by (cases rule: estimate_target_cases) simp_all
  show "t \<in> set (keys (kde_cache st1))"
    using assms by (cases rule: estimate_target_cases) (simp_all add: keys_dict_set)
  show "set (keys (kde_cache st)) \<subseteq> set (keys (kde_cache st1))"
    using assms by (cases rule: estimate_target_cases) (auto simp: keys_dict_set)
  show "map_of (kde_cache st1) k = Some v" if old: "map_of (kde_cache st) k = Some v"
    using assms
  proof (cases rule: estimate_target_cases)
    case cached
    with old show ?thesis by simp
  next
    case (estimated tbl d)
    from old have "k \<in> set (keys (kde_cache st))" by (simp add: in_keys_iff)
    with estimated(1) have "k \<noteq> t" by auto
    with old show ?thesis by (simp add: estimated(4) map_of_dict_set)
  qed
  show "k = t \<and> (\<exists>tbl. (k, tbl) \<in> set (data st) \<and> kde tbl = Inr v)"
    if a: "map_of (kde_cache st1) k = Some v" and b: "map_of (kde_cache st) k = None"
    using assms
  proof (cases rule: estimate_target_cases)
    case cached
    with a b show ?thesis by simp
  next
    case (estimated tbl d)
    from a b have kt: "k = t" and vd: "v = d"
      by (auto simp: estimated(4) map_of_dict_set split: if_splits)
    have "(t, tbl) \<in> set (data st)" using estimated(2) by (rule map_of_SomeD)
    with kt vd estimated(3) show ?thesis by blast
  qed
qed

lemma estimate_comparisons_cache:
  assumes "estimate_comparisons kde st cmp = Inr st2"
  shows "data st2 = data st"
    and "map_of (kde_cache st) k = Some v \<Longrightarrow> map_of (kde_cache st2) k = Some v"
    and "map_of (kde_cache st2) k = Some v \<Longrightarrow> map_of (kde_cache st) k = None
          \<Longrightarrow> k \<in> set cmp \<and> (\<exists>tbl. (k, tbl) \<in> set (data st) \<and> kde tbl = Inr v)"
    and "set (keys (kde_cache st)) \<subseteq> set (keys (kde_cache st2))"
proof -
  define samples_df where "samples_df = filter (\<lambda>(name, s). name \<in> set cmp
                                    \<and> name \<notin> set (keys (kde_cache st))) (data st)"
  from assms obtain qs where q: "traverse (indexed_kde kde) samples_df = Inr qs"
    and st2: "st2 = st\<lparr>kde_cache := fold (\<lambda>(name, q) c. dict_set name q c) qs (kde_cache st)\<rparr>"
    by (auto simp: estimate_comparisons_def samples_df_def Let_def split: sum.splits)
  have new: "\<exists>tbl. (k', tbl) \<in> set samples_df \<and> kde tbl = Inr v'" if "(k', v') \<in> set qs" for k' v'
    using traverse_indexed_kde [OF q that] .
  show "data st2 = data st" by (simp add: st2)
  show "set (keys (kde_cache st)) \<subseteq> set (keys (kde_cache st2))"
    by (simp add: st2 fold_dict_set_keys)
  show "map_of (kde_cache st2) k = Some v" if old: "map_of (kde_cache st) k = Some v"
  proof -
    have "k \<notin> fst ` set qs"
    proof
      assume "k \<in> fst ` set qs"
      then obtain v' where "(k, v') \<in> set qs" by auto
      then obtain tbl where "(k, tbl) \<in> set samples_df" using new by blast
      then have "k \<notin> set (keys (kde_cache st))" by (simp add: samples_df_def)
      with old show False by (simp add: in_keys_iff)
    qed
    then show ?thesis using old by (simp add: st2 fold_dict_set_keep)
  qed
  show "k \<in> set cmp \<and> (\<exists>tbl. (k, tbl) \<in> set (data st) \<and> kde tbl = Inr v)"
    if a: "map_of (kde_cache st2) k = Some v" and b: "map_of (kde_cache st) k = None"
  proof -
    have "map_of (kde_cache st) k = Some v \<or> (k, v) \<in> set qs"
      using a by (simp add: st2 fold_dict_set_lookup)
    with b have "(k, v) \<in> set qs" by simp
    then obtain tbl where "(k, tbl) \<in> set samples_df" "kde tbl = Inr v" using new by blast
    then show ?thesis by (auto simp: samples_df_def)
  qed
qed



text \<open>
  C10.  When a divergence computation returns its list, the list has one pair for
  every entry of the cache as it is after the computation, in the order of the cache:
  the name of the entry, and the divergence between the cached density of the target
  and the density of the entry under the chosen method.  The target itself is among the
  names, and so is every sample that was cached before, whether or not it is among the
  comparisons.
\<close>

theorem calc_divergence_one_pair_per_cache_entry:
  assumes "calc_divergence kde lib st target_id comparisons divergence_method = (Inr res, st')"
  shows "\<exists>p. map_of (kde_cache st') target_id = Some p
           \<and> list_all2 (\<lambda>(name, q) (name', d).
                          name' = name \<and> divergence lib divergence_method p q = Inr d)
                        (kde_cache st') res
           \<and> target_id \<in> set (map fst res)
           \<and> set (keys (kde_cache st)) \<subseteq> set (map fst res)"
proof -
  from assms obtain st1 where t: "estimate_target kde st target_id = Inr st1"
    and c: "estimate_comparisons kde st1 comparisons = Inr st'"
    and d: "divergences lib st' target_id divergence_method = Inr res"
    by (auto simp: calc_divergence_def split: if_splits sum.splits)
  have "target_id \<in> set (keys (kde_cache st1))" using t by (rule estimate_target_cache(2))
  moreover have sub: "set (keys (kde_cache st1)) \<subseteq> set (keys (kde_cache st'))"
    using c by (rule estimate_comparisons_cache(4))
  ultimately have tk: "target_id \<in> set (keys (kde_cache st'))" by auto
  then obtain p where p: "map_of (kde_cache st') target_id = Some p"
    by (auto simp: in_keys_iff)
  have all: "list_all2 (\<lambda>(name, q) (name', d).
                          name' = name \<and> divergence lib divergence_method p q = Inr d)
                        (kde_cache st') res"
    using traverse_Inr [OF d [unfolded divergences_def]]
    by (rule list_all2_mono) (auto simp: p split: sum.splits)
  then have "list_all2 (\<lambda>x y. fst y = fst x) (kde_cache st') res"
    by (rule list_all2_mono) auto
  then have names: "map fst res = keys (kde_cache st')"
    unfolding keys_def by (induction rule: list_all2_induct) auto
  have "set (keys (kde_cache st)) \<subseteq> set (keys (kde_cache st1))"
    using t by (rule estimate_target_cache(5))
  with sub tk names p all show ?thesis by auto
qed

theorem calc_divergence_one_pair_per_cache_entry_witness:
  "calc_divergence first_column zero_scipy S0 ''A'' [''B''] ''hellinger''
     = (Inr [(''C'', Finite (sqrt 2)), (''A'', Finite 0),
             (''B'', Finite (sqrt ((1 - sqrt 3) * (1 - sqrt 3) / 2)))], S1)
   \<and> map_of (kde_cache S1) ''A'' = Some [1]
   \<and> divergence zero_scipy ''hellinger'' [1] [9] = Inr (Finite (sqrt 2))
   \<and> divergence zero_scipy ''hellinger'' [1] [1] = Inr (Finite 0)
   \<and> divergence zero_scipy ''hellinger'' [1] [3]
        = Inr (Finite (sqrt ((1 - sqrt 3) * (1 - sqrt 3) / 2)))
   \<and> keys (kde_cache S0) = [''C'']
   \<and> ''C'' \<notin> set [''B'']"
  using calc_divergence_one_pair_per_cache_entry
          [of first_column zero_scipy S0 "''A''" "[''B'']" "''hellinger''"
              "[(''C'', Finite (sqrt 2)), (''A'', Finite 0),
                (''B'', Finite (sqrt ((1 - sqrt 3) * (1 - sqrt 3) / 2)))]" S1]
  by (simp add: calc_divergence_def estimate_target_def estimate_comparisons_def
        divergences_def divergence_def hellinger_dot_def broadcast_def indexed_kde_def
        keys_def S0_def S1_def first_column_def Let_def)

end
